theory Spec2Isabelle
  imports Main "HOL-Library.Sublist"
begin

text \<open>
  A model of the design-graph core of the MCP server in \<open>src/index.ts\<close>: the cache, the
  active-file resolution, the bounded traversal, the shallow scan, the name search and the
  node address parsing, each function under its own name.

  Every \<open>async\<close> function takes the surroundings (\<open>env\<close>) and the process state and
  returns its result with the new state. A function that can throw returns \<open>error + 'a\<close>,
  with \<open>Inl\<close> for the thrown \<open>Error\<close>; a function that catches everything returns a plain
  value. The bounds \<open>maxNodes\<close>, \<open>maxDepth\<close>, \<open>limit\<close> and \<open>maxResults\<close> are counts and
  are natural numbers. A document is a tree of JSON objects whose \<open>children\<close>, when
  present, is an array of such objects. File keys are looked up in the cache as in a map:
  a key that names a property of \<open>Object.prototype\<close> is outside the model.
\<close>

section \<open>Strings and JavaScript values\<close>

text \<open>
  Strings are modelled as \<^typ>\<open>string\<close> over ASCII, and case is folded on the ASCII
  letters. A JavaScript value used as a
  condition is truthy or falsy: an absent field (\<open>undefined\<close>) and the empty string are
  falsy, every other string is truthy, every array and object is truthy.
\<close>

definition lower_letters :: string where
  "lower_letters = ''abcdefghijklmnopqrstuvwxyz''"

definition upper_letters :: string where
  "upper_letters = ''ABCDEFGHIJKLMNOPQRSTUVWXYZ''"

definition toLowerCase_char :: "char \<Rightarrow> char" where
  "toLowerCase_char c =
     (case map_of (zip upper_letters lower_letters) c of Some l \<Rightarrow> l | None \<Rightarrow> c)"

definition toUpperCase_char :: "char \<Rightarrow> char" where
  "toUpperCase_char c =
     (case map_of (zip lower_letters upper_letters) c of Some u \<Rightarrow> u | None \<Rightarrow> c)"

definition toLowerCase :: "string \<Rightarrow> string" where
  "toLowerCase s = map toLowerCase_char s"

definition toUpperCase :: "string \<Rightarrow> string" where
  "toUpperCase s = map toUpperCase_char s"

text \<open>\<open>truthy v\<close>: the field is present and not the empty string.\<close>

definition truthy :: "string option \<Rightarrow> bool" where
  "truthy v = (case v of None \<Rightarrow> False | Some s \<Rightarrow> s \<noteq> [])"

text \<open>\<open>v || d\<close> on a string field with a string default.\<close>

definition or_else :: "string option \<Rightarrow> string \<Rightarrow> string" where
  "or_else v d = (if truthy v then the v else d)"

section \<open>Data model\<close>

text \<open>
  A node of the remote document tree, as the JSON of the design API has it. Every field
  but the id may be absent. An absent \<open>children\<close> field is the empty list: each of the
  three walks guards its loop with \<open>node.children &&\<close> and an empty array runs the loop
  zero times, so the two cases behave alike.
\<close>

datatype json_node =
  JNode (j_id: string) (j_name: "string option") (j_type: "string option")
        (j_description: "string option") (j_children: "json_node list")

record FigmaFile =
  file_key :: string
  file_name :: string
  file_lastModified :: string
  file_thumbnailUrl :: "string option"

record FigmaNode =
  node_id :: string
  node_name :: "string option"
  node_type :: string
  node_description :: "string option"

record Component =
  comp_id :: string
  comp_name :: "string option"
  comp_type :: string
  comp_description :: string

text \<open>The detail form of a node: an API-shaped blob with a \<open>document\<close> field.\<close>

datatype node_detail = NodeDetail (detail_document: "json_node option")

datatype error = Error string

text \<open>The body of a successful \<open>GET /files/{key}\<close>.\<close>

record file_response =
  resp_name :: string
  resp_document :: json_node

text \<open>
  The remote calls the server issues, as a log entry each. The log is instrumentation: it
  records every \<open>figmaApi.get\<close> in the order issued, so that "no remote call" can be
  stated.
\<close>

datatype remote_call =
  GET_me_files
  | GET_file string
  | GET_nodes string string

text \<open>
  The surroundings of the process: the configured default file, the clock read by
  \<open>new Date().toISOString()\<close>, and the remote API, each endpoint answering with a
  transport error message (\<open>Inl\<close>) or a body (\<open>Inr\<close>). The node endpoint's body is the
  entry \<open>response.data.nodes[nodeId]\<close>, which is \<open>None\<close> when it is \<open>null\<close> or missing.
\<close>

record env =
  FIGMA_DEFAULT_FILE :: string
  now :: string
  api_me_files :: "string + FigmaFile list"
  api_file :: "string \<Rightarrow> string + file_response"
  api_nodes :: "string \<Rightarrow> string \<Rightarrow> string + node_detail option"

text \<open>
  The process-wide mutable state: the three cache mappings, the active-file pointer and
  the log of remote calls.
\<close>

record server_state =
  cache_files :: "FigmaFile list"
  cache_fileNodes :: "string \<rightharpoonup> FigmaNode list"
  cache_nodeDetails :: "string \<rightharpoonup> node_detail option"
  activeFileKey :: string
  remote_calls :: "remote_call list"

definition log_call :: "remote_call \<Rightarrow> server_state \<Rightarrow> server_state" where
  "log_call c s = s\<lparr>remote_calls := remote_calls s @ [c]\<rparr>"

text \<open>The remote calls issued between two states.\<close>

definition issued :: "server_state \<Rightarrow> server_state \<Rightarrow> remote_call list" where
  "issued s s' = drop (length (remote_calls s)) (remote_calls s')"

section \<open>Bounded full traversal\<close>

text \<open>\<open>['FRAME', 'COMPONENT', 'COMPONENT_SET'].includes(node.type)\<close>\<close>

definition is_important :: "string option \<Rightarrow> bool" where
  "is_important t = (t = Some ''FRAME'' \<or> t = Some ''COMPONENT'' \<or> t = Some ''COMPONENT_SET'')"

text \<open>
  The comparator of the sort returns \<open>bIsImportant - aIsImportant\<close>, and the sort is
  stable: the important children come first, each group in its original order.
\<close>

definition sortedChildren :: "json_node list \<Rightarrow> json_node list" where
  "sortedChildren cs =
     filter (\<lambda>c. is_important (j_type c)) cs @ filter (\<lambda>c. \<not> is_important (j_type c)) cs"

definition traverse_summary :: "json_node \<Rightarrow> FigmaNode" where
  "traverse_summary node =
     \<lparr> node_id = j_id node, node_name = j_name node, node_type = the (j_type node),
       node_description =
         Some (or_else (j_description node)
                 (''A '' @ toLowerCase (the (j_type node)) @ '' from Figma'')) \<rparr>"

lemma size_j_children: "Suc (2 * size_list size (j_children node)) < 2 * size node"
  by (cases node) simp

lemma size_sortedChildren [simp]:
  "size_list size (sortedChildren cs) = size_list size cs"
  by (induction cs) (auto simp: sortedChildren_def)

function traverseNodes :: "nat \<Rightarrow> nat \<Rightarrow> json_node \<Rightarrow> nat \<Rightarrow> FigmaNode list \<Rightarrow> FigmaNode list"
  and traverseChildren :: "nat \<Rightarrow> nat \<Rightarrow> json_node list \<Rightarrow> nat \<Rightarrow> FigmaNode list \<Rightarrow> FigmaNode list"
  where
  "traverseNodes maxNodes maxDepth node depth nodes =
     (if length nodes \<ge> maxNodes \<or> depth \<ge> maxDepth then nodes
      else if is_important (j_type node) \<and> length (nodes @ [traverse_summary node]) \<ge> maxNodes
        then nodes @ [traverse_summary node]
      else if depth < maxDepth
        then traverseChildren maxNodes maxDepth (sortedChildren (j_children node)) (depth + 1)
               (if is_important (j_type node) then nodes @ [traverse_summary node] else nodes)
      else (if is_important (j_type node) then nodes @ [traverse_summary node] else nodes))"
| "traverseChildren maxNodes maxDepth [] depth nodes = nodes"
| "traverseChildren maxNodes maxDepth (child # rest) depth nodes =
     (if length (traverseNodes maxNodes maxDepth child depth nodes) \<ge> maxNodes
        then traverseNodes maxNodes maxDepth child depth nodes
      else traverseChildren maxNodes maxDepth rest depth
             (traverseNodes maxNodes maxDepth child depth nodes))"
  by pat_completeness auto
termination
  by (relation "measure (\<lambda>x. case x of
          Inl (mn, md, node, d, ns) \<Rightarrow> 2 * size node
        | Inr (mn, md, cs, d, ns) \<Rightarrow> 2 * size_list size cs + 1)")
     (auto simp: size_j_children)

section \<open>File list and active file\<close>

text \<open>
  \<open>fetchFigmaFiles\<close>: the cached list when it is not empty; else the listing endpoint;
  when that fails, one direct fetch of the active or default file key; when that fails
  too, or there is no key, the empty list.
\<close>

definition fetchFigmaFiles :: "env \<Rightarrow> server_state \<Rightarrow> FigmaFile list \<times> server_state" where
  "fetchFigmaFiles e s =
     (if length (cache_files s) > 0 then (cache_files s, s)
      else
        (case api_me_files e of
           Inr files \<Rightarrow> (files, (log_call GET_me_files s)\<lparr>cache_files := files\<rparr>)
         | Inl err \<Rightarrow>
             if FIGMA_DEFAULT_FILE e \<noteq> [] \<or> activeFileKey s \<noteq> [] then
               (let fileKey = (if activeFileKey s \<noteq> [] then activeFileKey s
                               else FIGMA_DEFAULT_FILE e);
                    s2 = log_call (GET_file fileKey) (log_call GET_me_files s)
                in case api_file e fileKey of
                     Inr resp \<Rightarrow>
                       ([\<lparr> file_key = fileKey, file_name = resp_name resp,
                            file_lastModified = now e, file_thumbnailUrl = None \<rparr>],
                        s2\<lparr>cache_files :=
                             [\<lparr> file_key = fileKey, file_name = resp_name resp,
                                 file_lastModified = now e, file_thumbnailUrl = None \<rparr>]\<rparr>)
                   | Inl fileError \<Rightarrow> ([], s2))
             else ([], log_call GET_me_files s)))"

text \<open>\<open>getActiveFile\<close>; \<open>None\<close> is the JavaScript \<open>null\<close>.\<close>

definition getActiveFile :: "env \<Rightarrow> server_state \<Rightarrow> FigmaFile option \<times> server_state" where
  "getActiveFile e s =
     (case fetchFigmaFiles e s of
        (files, s1) \<Rightarrow>
          if length files = 0 then (None, s1)
          else if activeFileKey s1 \<noteq> [] then
            (case find (\<lambda>file. file_key file = activeFileKey s1) files of
               Some activeFile \<Rightarrow> (Some activeFile, s1)
             | None \<Rightarrow> (Some (hd files), s1))
          else (Some (hd files), s1))"

section \<open>Per-file node list\<close>

text \<open>
  \<open>fetchFileNodes\<close>: a cached list (an array, so always truthy) is returned as it is;
  otherwise the file is fetched and walked from depth 0, and the result cached; a failed
  fetch is caught and answered with the empty list, which is not cached.
\<close>

definition fetchFileNodes ::
    "env \<Rightarrow> string \<Rightarrow> nat \<Rightarrow> nat \<Rightarrow> server_state \<Rightarrow> FigmaNode list \<times> server_state" where
  "fetchFileNodes e fileKey maxNodes maxDepth s =
     (case cache_fileNodes s fileKey of
        Some cached \<Rightarrow> (cached, s)
      | None \<Rightarrow>
          (case api_file e fileKey of
             Inr resp \<Rightarrow>
               (traverseNodes maxNodes maxDepth (resp_document resp) 0 [],
                (log_call (GET_file fileKey) s)
                  \<lparr>cache_fileNodes := (cache_fileNodes s)
                     (fileKey \<mapsto> traverseNodes maxNodes maxDepth (resp_document resp) 0 [])\<rparr>)
           | Inl err \<Rightarrow> ([], log_call (GET_file fileKey) s)))"

section \<open>Shallow top-level scan\<close>

definition isComponentLike :: "json_node \<Rightarrow> bool" where
  "isComponentLike node =
     (j_type node = Some ''COMPONENT'' \<or> j_type node = Some ''COMPONENT_SET'' \<or>
      j_type node = Some ''FRAME'' \<or> j_type node = Some ''INSTANCE'')"

definition to_component :: "json_node \<Rightarrow> Component" where
  "to_component node =
     \<lparr> comp_id = j_id node, comp_name = j_name node, comp_type = the (j_type node),
       comp_description = or_else (j_description node) [] \<rparr>"

text \<open>The innermost loop, over the children of a component set: it has no limit check.\<close>

fun scanSetChildren :: "json_node list \<Rightarrow> Component list \<Rightarrow> Component list" where
  "scanSetChildren [] components = components"
| "scanSetChildren (childNode # rest) components =
     scanSetChildren rest
       (if isComponentLike childNode then components @ [to_component childNode]
        else components)"

text \<open>
  The loop over the children of a page: the limit is checked after a component-like child
  and its set children have been pushed.
\<close>

fun scanPageChildren :: "nat \<Rightarrow> json_node list \<Rightarrow> Component list \<Rightarrow> Component list" where
  "scanPageChildren limit [] components = components"
| "scanPageChildren limit (node # rest) components =
     (if isComponentLike node then
        (let pushed = components @ [to_component node];
             withSet = (if j_type node = Some ''COMPONENT_SET''
                        then scanSetChildren (j_children node) pushed else pushed)
         in if length withSet \<ge> limit then withSet
            else scanPageChildren limit rest withSet)
      else scanPageChildren limit rest components)"

text \<open>The loop over the pages: the limit is checked at the end of each page.\<close>

fun scanPages :: "nat \<Rightarrow> json_node list \<Rightarrow> Component list \<Rightarrow> Component list" where
  "scanPages limit [] components = components"
| "scanPages limit (page # rest) components =
     (let withPage = (if isComponentLike page then components @ [to_component page]
                      else components);
          withChildren = scanPageChildren limit (j_children page) withPage
      in if length withChildren \<ge> limit then withChildren
         else scanPages limit rest withChildren)"

definition fetchTopLevelComponents ::
    "env \<Rightarrow> string \<Rightarrow> nat \<Rightarrow> server_state \<Rightarrow> (error + Component list) \<times> server_state" where
  "fetchTopLevelComponents e fileKey limit s =
     (case api_file e fileKey of
        Inr resp \<Rightarrow>
          (Inr (scanPages limit (j_children (resp_document resp)) []),
           log_call (GET_file fileKey) s)
      | Inl err \<Rightarrow>
          (Inl (Error (''Failed to fetch components from file '' @ fileKey @ '': '' @ err)),
           log_call (GET_file fileKey) s))"

section \<open>Node details\<close>

text \<open>
  \<open>fetchNodeDetails\<close>: the cache key is \<open>fileKey:nodeId\<close>; a cached entry is used only
  when it is truthy (an object, not \<open>null\<close>); a failed fetch is caught and answered with
  \<open>null\<close>, which is not cached.
\<close>

definition fetchNodeDetails ::
    "env \<Rightarrow> string \<Rightarrow> string \<Rightarrow> server_state \<Rightarrow> node_detail option \<times> server_state" where
  "fetchNodeDetails e fileKey nodeId s =
     (case cache_nodeDetails s (fileKey @ '':'' @ nodeId) of
        Some (Some cached) \<Rightarrow> (Some cached, s)
      | _ \<Rightarrow>
          (case api_nodes e fileKey nodeId of
             Inr nodeData \<Rightarrow>
               (nodeData,
                (log_call (GET_nodes fileKey nodeId) s)
                  \<lparr>cache_nodeDetails := (cache_nodeDetails s)
                     (fileKey @ '':'' @ nodeId \<mapsto> nodeData)\<rparr>)
           | Inl err \<Rightarrow> (None, log_call (GET_nodes fileKey nodeId) s)))"

section \<open>Name search\<close>

text \<open>
  The search compiles the query with \<open>new RegExp(name, 'i')\<close>, unescaped. The regular
  expression engine is a library; its behaviour is written out here for the patterns made
  of ordinary characters and \<open>.\<close> only: an ordinary character matches itself up to case
  (the engine compares the upper-case forms), \<open>.\<close> matches any character but a line
  terminator, and \<open>test\<close> looks for a match starting at any position. For every other
  pattern the engine is a parameter \<open>other\<close> of the model, answering with the message of
  the \<open>SyntaxError\<close> it throws or with the compiled test.
\<close>

definition syntax_characters :: "char list" where
  "syntax_characters =
     [CHR ''^'', CHR ''$'', CHR 0x5C, CHR ''.'', CHR ''*'', CHR ''+'', CHR ''?'',
      CHR ''('', CHR '')'', CHR ''['', CHR '']'', CHR ''{'', CHR ''}'', CHR ''|'']"

definition line_terminators :: "char list" where
  "line_terminators = [CHR 0x0A, CHR 0x0D]"

datatype atom = Lit char | AnyChar

fun atom_matches :: "atom \<Rightarrow> char \<Rightarrow> bool" where
  "atom_matches (Lit p) c = (toUpperCase_char p = toUpperCase_char c)"
| "atom_matches AnyChar c = (c \<notin> set line_terminators)"

fun match_here :: "atom list \<Rightarrow> string \<Rightarrow> bool" where
  "match_here [] cs = True"
| "match_here (a # as) [] = False"
| "match_here (a # as) (c # cs) = (atom_matches a c \<and> match_here as cs)"

fun match_anywhere :: "atom list \<Rightarrow> string \<Rightarrow> bool" where
  "match_anywhere as [] = match_here as []"
| "match_anywhere as (c # cs) = (match_here as (c # cs) \<or> match_anywhere as cs)"

definition is_literal :: "string \<Rightarrow> bool" where
  "is_literal q = list_all (\<lambda>c. c \<notin> set syntax_characters) q"

definition in_fragment :: "string \<Rightarrow> bool" where
  "in_fragment q = list_all (\<lambda>c. c = CHR ''.'' \<or> c \<notin> set syntax_characters) q"

definition compile_fragment :: "string \<Rightarrow> atom list" where
  "compile_fragment q = map (\<lambda>c. if c = CHR ''.'' then AnyChar else Lit c) q"

definition RegExp_i ::
    "(string \<Rightarrow> string + (string \<Rightarrow> bool)) \<Rightarrow> string \<Rightarrow> string + (string \<Rightarrow> bool)" where
  "RegExp_i other q =
     (if in_fragment q then Inr (match_anywhere (compile_fragment q)) else other q)"

definition search_summary :: "json_node \<Rightarrow> FigmaNode" where
  "search_summary node =
     \<lparr> node_id = j_id node, node_name = j_name node,
       node_type = or_else (j_type node) ''Unknown'',
       node_description =
         Some (or_else (j_description node)
                 (''A '' @ (if truthy (j_type node) then toLowerCase (the (j_type node))
                            else ''node'') @ '' from Figma'')) \<rparr>"

text \<open>\<open>node.name && namePattern.test(node.name)\<close>\<close>

definition name_hit :: "(string \<Rightarrow> bool) \<Rightarrow> json_node \<Rightarrow> bool" where
  "name_hit test node = (truthy (j_name node) \<and> test (the (j_name node)))"

function searchNodes ::
    "(string \<Rightarrow> bool) \<Rightarrow> nat \<Rightarrow> json_node \<Rightarrow> nat \<Rightarrow> nat \<Rightarrow> FigmaNode list \<Rightarrow> FigmaNode list"
  and searchChildren ::
    "(string \<Rightarrow> bool) \<Rightarrow> nat \<Rightarrow> json_node list \<Rightarrow> nat \<Rightarrow> nat \<Rightarrow> FigmaNode list \<Rightarrow> FigmaNode list"
  where
  "searchNodes test maxResults node depth maxDepth matchingNodes =
     (if depth > maxDepth \<or> length matchingNodes \<ge> maxResults then matchingNodes
      else if name_hit test node \<and> length (matchingNodes @ [search_summary node]) \<ge> maxResults
        then matchingNodes @ [search_summary node]
      else searchChildren test maxResults (j_children node) (depth + 1) maxDepth
             (if name_hit test node then matchingNodes @ [search_summary node]
              else matchingNodes))"
| "searchChildren test maxResults [] depth maxDepth matchingNodes = matchingNodes"
| "searchChildren test maxResults (child # rest) depth maxDepth matchingNodes =
     (if length (searchNodes test maxResults child depth maxDepth matchingNodes) \<ge> maxResults
        then searchNodes test maxResults child depth maxDepth matchingNodes
      else searchChildren test maxResults rest depth maxDepth
             (searchNodes test maxResults child depth maxDepth matchingNodes))"
  by pat_completeness auto
termination
  by (relation "measure (\<lambda>x. case x of
          Inl (t, mr, node, d, md, ns) \<Rightarrow> 2 * size node
        | Inr (t, mr, cs, d, md, ns) \<Rightarrow> 2 * size_list size cs + 1)")
     (auto simp: size_j_children)

definition findNodesByName ::
    "(string \<Rightarrow> string + (string \<Rightarrow> bool)) \<Rightarrow> env \<Rightarrow> string \<Rightarrow> string \<Rightarrow> nat \<Rightarrow> server_state
       \<Rightarrow> (error + FigmaNode list) \<times> server_state" where
  "findNodesByName other e fileKey name maxResults s =
     (case api_file e fileKey of
        Inl err \<Rightarrow>
          (Inl (Error (''Failed to search for nodes by name: '' @ err)),
           log_call (GET_file fileKey) s)
      | Inr resp \<Rightarrow>
          (case RegExp_i other name of
             Inl err \<Rightarrow>
               (Inl (Error (''Failed to search for nodes by name: '' @ err)),
                log_call (GET_file fileKey) s)
           | Inr test \<Rightarrow>
               (Inr (searchNodes test maxResults (resp_document resp) 0 10 []),
                log_call (GET_file fileKey) s)))"

section \<open>Tool handlers\<close>

text \<open>
  \<open>set_active_figma_file\<close>: the empty key is refused first; then the file is fetched, and
  only after the fetch has answered are the pointer and the cached list written.
\<close>

definition set_active_figma_file ::
    "env \<Rightarrow> string \<Rightarrow> server_state \<Rightarrow> (error + string) \<times> server_state" where
  "set_active_figma_file e fileKey s =
     (if fileKey = [] then (Inl (Error ''File key is required''), s)
      else
        (case api_file e fileKey of
           Inr resp \<Rightarrow>
             (Inr (''Active Figma file set to: '' @ resp_name resp @ '' ('' @ fileKey @ '')''),
              (log_call (GET_file fileKey) s)
                \<lparr>activeFileKey := fileKey,
                 cache_files :=
                   (case find (\<lambda>f. file_key f = fileKey) (cache_files s) of
                      Some existingFile \<Rightarrow> cache_files s
                    | None \<Rightarrow> cache_files s @
                        [\<lparr> file_key = fileKey, file_name = resp_name resp,
                            file_lastModified = now e, file_thumbnailUrl = None \<rparr>])\<rparr>)
         | Inl err \<Rightarrow>
             (Inl (Error (''File with key '' @ fileKey @ '' not found or not accessible'')),
              log_call (GET_file fileKey) s)))"

text \<open>
  The file check of \<open>extract_design_tokens\<close>, the other place that appends to the cached
  file list: a key not in the fetched list is fetched directly and, on success, pushed.
\<close>

definition verify_token_file :: "env \<Rightarrow> string \<Rightarrow> server_state \<Rightarrow> (error + string) \<times> server_state" where
  "verify_token_file e fileKey s =
     (case fetchFigmaFiles e s of
        (files, s1) \<Rightarrow>
          (case find (\<lambda>f. file_key f = fileKey) files of
             Some file \<Rightarrow> (Inr (file_name file), s1)
           | None \<Rightarrow>
               (case api_file e fileKey of
                  Inr resp \<Rightarrow>
                    (Inr (resp_name resp),
                     (log_call (GET_file fileKey) s1)
                       \<lparr>cache_files := cache_files s1 @
                          [\<lparr> file_key = fileKey, file_name = resp_name resp,
                              file_lastModified = now e, file_thumbnailUrl = None \<rparr>]\<rparr>)
                | Inl err \<Rightarrow>
                    (Inl (Error (''File with key '' @ fileKey @ '' not found or not accessible'')),
                     log_call (GET_file fileKey) s1))))"

subsection \<open>Node address parsing\<close>

text \<open>\<open>s.split(sep)\<close> for a one-character separator: every occurrence splits.\<close>

fun split_on :: "char \<Rightarrow> string \<Rightarrow> string list" where
  "split_on sep [] = [[]]"
| "split_on sep (c # cs) =
     (if c = sep then [] # split_on sep cs
      else (case split_on sep cs of
              [] \<Rightarrow> [[c]]
            | w # ws \<Rightarrow> (c # w) # ws))"

text \<open>
  \<open>nodeUri.match(/^figma:\/\/node\/([^\/]+)\/(.+)$/)\<close>: the first group runs to the first
  slash after the prefix and is not empty; the second is the whole rest, not empty and
  free of line terminators.
\<close>

definition figmaPattern :: "string \<Rightarrow> (string \<times> string) option" where
  "figmaPattern uri =
     (if take 13 uri = ''figma://node/'' then
        (let rest = drop 13 uri;
             fileKey = takeWhile (\<lambda>c. c \<noteq> CHR ''/'') rest;
             tail = dropWhile (\<lambda>c. c \<noteq> CHR ''/'') rest
         in if fileKey \<noteq> [] \<and> tail \<noteq> [] \<and> tl tail \<noteq> [] \<and>
               list_all (\<lambda>c. c \<notin> set line_terminators) (tl tail)
            then Some (fileKey, tl tail) else None)
      else None)"

text \<open>\<open>if (!fileKey || !nodeId) throw\<close>, the check after the three branches.\<close>

definition checkParsed :: "string \<Rightarrow> string \<Rightarrow> string \<Rightarrow> error + string \<times> string" where
  "checkParsed nodeUri fileKey nodeId =
     (if fileKey = [] \<or> nodeId = []
      then Inl (Error (''Could not extract fileKey and nodeId from URI: '' @ nodeUri))
      else Inr (fileKey, nodeId))"

text \<open>
  The address parsing of \<open>generate_component\<close> and \<open>export_component_image\<close> (the same
  code in both handlers): the scheme form, the slash form through \<open>split('/', 2)\<close>, whose
  limit keeps the first two of all the pieces, and the bare node id resolved against the
  active file.
\<close>

definition parseNodeUri ::
    "env \<Rightarrow> string \<Rightarrow> server_state \<Rightarrow> (error + string \<times> string) \<times> server_state" where
  "parseNodeUri e nodeUri s =
     (if take 8 nodeUri = ''figma://'' then
        (case figmaPattern nodeUri of
           None \<Rightarrow>
             (Inl (Error (''Invalid node URI format: '' @ nodeUri @
                          ''. Expected format: figma://node/{fileKey}/{nodeId}'')), s)
         | Some (fileKey, nodeId) \<Rightarrow> (checkParsed nodeUri fileKey nodeId, s))
      else if CHR ''/'' \<in> set nodeUri then
        (let parts = take 2 (split_on (CHR ''/'') nodeUri)
         in if length parts = 2 then (checkParsed nodeUri (parts ! 0) (parts ! 1), s)
            else (Inl (Error (''Invalid node URI format: '' @ nodeUri @
                              ''. Expected format: {fileKey}/{nodeId}'')), s))
      else
        (case getActiveFile e s of
           (None, s1) \<Rightarrow>
             (Inl (Error (''No active Figma file. Please set an active file first '' @
                          ''using set_active_figma_file.'')), s1)
         | (Some activeFile, s1) \<Rightarrow> (checkParsed nodeUri (file_key activeFile) nodeUri, s1)))"

section \<open>Operations of the process\<close>

text \<open>
  Every operation that reads or writes the cache or the pointer, as one step on the state.
  A request handler is a sequence of these.
\<close>

datatype operation =
  Op_fetchFigmaFiles
  | Op_getActiveFile
  | Op_fetchFileNodes string nat nat
  | Op_fetchTopLevelComponents string nat
  | Op_fetchNodeDetails string string
  | Op_findNodesByName string string nat
  | Op_set_active_figma_file string
  | Op_verify_token_file string
  | Op_parseNodeUri string

fun step ::
    "(string \<Rightarrow> string + (string \<Rightarrow> bool)) \<Rightarrow> env \<Rightarrow> operation \<Rightarrow> server_state \<Rightarrow> server_state" where
  "step other e Op_fetchFigmaFiles s = snd (fetchFigmaFiles e s)"
| "step other e Op_getActiveFile s = snd (getActiveFile e s)"
| "step other e (Op_fetchFileNodes k n d) s = snd (fetchFileNodes e k n d s)"
| "step other e (Op_fetchTopLevelComponents k l) s = snd (fetchTopLevelComponents e k l s)"
| "step other e (Op_fetchNodeDetails k n) s = snd (fetchNodeDetails e k n s)"
| "step other e (Op_findNodesByName k q m) s = snd (findNodesByName other e k q m s)"
| "step other e (Op_set_active_figma_file k) s = snd (set_active_figma_file e k s)"
| "step other e (Op_verify_token_file k) s = snd (verify_token_file e k s)"
| "step other e (Op_parseNodeUri u) s = snd (parseNodeUri e u s)"

text \<open>
  A run: each operation with the surroundings it meets (the remote API may answer
  differently from one call to the next).
\<close>

fun run ::
    "(string \<Rightarrow> string + (string \<Rightarrow> bool)) \<Rightarrow> (env \<times> operation) list \<Rightarrow> server_state \<Rightarrow> server_state" where
  "run other [] s = s"
| "run other ((e, op) # rest) s = run other rest (step other e op s)"

section \<open>Reference notions for the name search\<close>

text \<open>
  The nodes at depth at most \<open>d\<close> below a node (the node itself at depth 0), in document
  order: a node before its children, the children from first to last.
\<close>

fun nodes_within :: "nat \<Rightarrow> json_node \<Rightarrow> json_node list" where
  "nodes_within 0 node = [node]"
| "nodes_within (Suc d) node = node # concat (map (nodes_within d) (j_children node))"

text \<open>The query is a case-insensitive substring of the name.\<close>

definition contains_ci :: "string \<Rightarrow> string \<Rightarrow> bool" where
  "contains_ci q n = sublist (toUpperCase q) (toUpperCase n)"

text \<open>The node has a name, the name is not empty, and the query is contained in it.\<close>

definition spec_name_matches :: "string \<Rightarrow> json_node \<Rightarrow> bool" where
  "spec_name_matches q node =
     (case j_name node of None \<Rightarrow> False | Some n \<Rightarrow> n \<noteq> [] \<and> contains_ci q n)"

text \<open>The summaries of the nodes of a list that the compiled pattern hits.\<close>

definition hits :: "(string \<Rightarrow> bool) \<Rightarrow> json_node list \<Rightarrow> FigmaNode list" where
  "hits test ns = map search_summary (filter (name_hit test) ns)"

section \<open>Concrete scenarios\<close>

text \<open>The state at startup with no default file configured.\<close>

definition initial_state :: server_state where
  "initial_state =
     \<lparr> cache_files = [], cache_fileNodes = Map.empty, cache_nodeDetails = Map.empty,
       activeFileKey = [], remote_calls = [] \<rparr>"

text \<open>A document with two frames on its top level, served for every file key.\<close>

definition two_frames_doc :: json_node where
  "two_frames_doc =
     JNode ''0:0'' (Some ''Document'') (Some ''DOCUMENT'') None
       [JNode ''1:1'' (Some ''Header'') (Some ''FRAME'') None [],
        JNode ''1:2'' (Some ''Footer'') (Some ''FRAME'') None []]"

definition env_two_frames :: env where
  "env_two_frames =
     \<lparr> FIGMA_DEFAULT_FILE = [], now = ''2025-01-01T00:00:00.000Z'',
       api_me_files = Inl ''Request failed with status code 404'',
       api_file = (\<lambda>k. Inr \<lparr> resp_name = ''Design'', resp_document = two_frames_doc \<rparr>),
       api_nodes = (\<lambda>k n. Inr None) \<rparr>"

text \<open>An API that serves one document for every file key.\<close>

definition env_serving :: "json_node \<Rightarrow> env" where
  "env_serving doc =
     \<lparr> FIGMA_DEFAULT_FILE = [], now = ''2025-01-01T00:00:00.000Z'',
       api_me_files = Inl ''Request failed with status code 404'',
       api_file = (\<lambda>k. Inr \<lparr> resp_name = ''Design'', resp_document = doc \<rparr>),
       api_nodes = (\<lambda>k n. Inr None) \<rparr>"

text \<open>No pattern outside the written-out fragment is used in the scenarios.\<close>

definition no_other_patterns :: "string \<Rightarrow> string + (string \<Rightarrow> bool)" where
  "no_other_patterns q = Inl ''pattern outside the fragment''"

definition abc_node :: json_node where
  "abc_node = JNode ''1:1'' (Some ''abc'') (Some ''FRAME'') None []"

definition blank_node :: json_node where
  "blank_node = JNode ''1:1'' (Some []) (Some ''FRAME'') None []"

definition nav_pair :: json_node where
  "nav_pair =
     JNode ''1:1'' (Some ''nav'') (Some ''FRAME'') None
       [JNode ''1:2'' (Some ''nav-icon'') (Some ''VECTOR'') None []]"

definition nav_doc :: json_node where
  "nav_doc =
     JNode ''0:0'' None (Some ''DOCUMENT'') None
       [JNode ''1:1'' (Some ''Navbar'') (Some ''FRAME'') None
          [JNode ''1:2'' (Some ''Navigation'') None None []],
        JNode ''1:3'' (Some ''Footer'') (Some ''FRAME'') None [],
        JNode ''1:4'' (Some ''nav-icon'') (Some ''VECTOR'') (Some ''An icon'') []]"

text \<open>A page with a component set of two variants, followed by a frame.\<close>

definition variants_doc :: json_node where
  "variants_doc =
     JNode ''0:0'' (Some ''Document'') (Some ''DOCUMENT'') None
       [JNode ''0:1'' (Some ''Page 1'') (Some ''CANVAS'') None
          [JNode ''1:1'' (Some ''Button'') (Some ''COMPONENT_SET'') None
             [JNode ''1:2'' (Some ''State=Default'') (Some ''COMPONENT'') None [],
              JNode ''1:3'' (Some ''State=Hover'') (Some ''COMPONENT'') None []],
           JNode ''1:4'' (Some ''Card'') (Some ''FRAME'') None []]]"

text \<open>An API whose every endpoint fails.\<close>

definition env_down :: env where
  "env_down =
     \<lparr> FIGMA_DEFAULT_FILE = [], now = ''2025-01-01T00:00:00.000Z'',
       api_me_files = Inl ''Network Error'',
       api_file = (\<lambda>k. Inl ''Network Error''),
       api_nodes = (\<lambda>k n. Inl ''Network Error'') \<rparr>"

text \<open>A state with one cached file, which is the active one.\<close>

definition old_file :: FigmaFile where
  "old_file = \<lparr> file_key = ''OLD'', file_name = ''Old design'',
                 file_lastModified = ''2024-12-31T00:00:00.000Z'', file_thumbnailUrl = None \<rparr>"

definition state_old_active :: server_state where
  "state_old_active =
     \<lparr> cache_files = [old_file], cache_fileNodes = Map.empty, cache_nodeDetails = Map.empty,
       activeFileKey = ''OLD'', remote_calls = [] \<rparr>"

text \<open>
  The listing endpoint fails, and the configured default file, which is also the active
  one at startup, can be fetched directly.
\<close>

definition env_default :: env where
  "env_default =
     \<lparr> FIGMA_DEFAULT_FILE = ''DEF'', now = ''2025-01-01T00:00:00.000Z'',
       api_me_files = Inl ''Request failed with status code 404'',
       api_file = (\<lambda>k. if k = ''DEF''
                        then Inr \<lparr> resp_name = ''Design system'', resp_document = two_frames_doc \<rparr>
                        else Inl ''Request failed with status code 404''),
       api_nodes = (\<lambda>k n. Inr None) \<rparr>"

definition state_default_active :: server_state where
  "state_default_active =
     \<lparr> cache_files = [], cache_fileNodes = Map.empty, cache_nodeDetails = Map.empty,
       activeFileKey = ''DEF'', remote_calls = [] \<rparr>"

text \<open>A cached file list of two files, the second one active.\<close>

definition file_A :: FigmaFile where
  "file_A = \<lparr> file_key = ''A'', file_name = ''First'',
               file_lastModified = ''2024-12-31T00:00:00.000Z'', file_thumbnailUrl = None \<rparr>"

definition file_B :: FigmaFile where
  "file_B = \<lparr> file_key = ''B'', file_name = ''Second'',
               file_lastModified = ''2024-12-31T00:00:00.000Z'', file_thumbnailUrl = None \<rparr>"

definition state_pointer_B :: server_state where
  "state_pointer_B =
     \<lparr> cache_files = [file_A, file_B], cache_fileNodes = Map.empty,
       cache_nodeDetails = Map.empty, activeFileKey = ''B'', remote_calls = [] \<rparr>"

text \<open>The listing endpoint answers with one file; the node endpoint with \<open>null\<close> entries.\<close>

definition env_listing :: env where
  "env_listing =
     \<lparr> FIGMA_DEFAULT_FILE = [], now = ''2025-01-01T00:00:00.000Z'',
       api_me_files = Inr [file_A],
       api_file = (\<lambda>k. Inr \<lparr> resp_name = ''Design'', resp_document = two_frames_doc \<rparr>),
       api_nodes = (\<lambda>k n. Inr None) \<rparr>"

section \<open>Bounded traversal and its cache\<close>

lemma traverse_bound:
  "length nodes \<le> maxNodes \<Longrightarrow>
     length (traverseNodes maxNodes maxDepth node depth nodes) \<le> maxNodes"
  "length nodes \<le> maxNodes \<Longrightarrow>
     length (traverseChildren maxNodes maxDepth cs depth nodes) \<le> maxNodes"
proof (induction maxNodes maxDepth node depth nodes and maxNodes maxDepth cs depth nodes
       rule: traverseNodes_traverseChildren.induct)
  case (1 maxNodes maxDepth node depth nodes)
  then show ?case by (auto simp del: traverseChildren.simps)
next
  case (2 maxNodes maxDepth depth nodes)
  then show ?case by simp
next
  case (3 maxNodes maxDepth child rest depth nodes)
  then show ?case by (auto simp del: traverseNodes.simps)
qed

lemma two_frames_second_call:
  "fst (fetchFileNodes env_two_frames ''K'' 1 3
          (snd (fetchFileNodes env_two_frames ''K'' 2 3 initial_state))) =
     [\<lparr> node_id = ''1:1'', node_name = Some ''Header'', node_type = ''FRAME'',
         node_description = Some ''A frame from Figma'' \<rparr>,
      \<lparr> node_id = ''1:2'', node_name = Some ''Footer'', node_type = ''FRAME'',
         node_description = Some ''A frame from Figma'' \<rparr>]"
  by (simp add: fetchFileNodes_def env_two_frames_def initial_state_def two_frames_doc_def
      log_call_def is_important_def sortedChildren_def traverse_summary_def or_else_def
      truthy_def toLowerCase_def toLowerCase_char_def upper_letters_def lower_letters_def)

text \<open>
  C1 (as stated, refuted). A first call for file \<open>K\<close> with \<open>maxNodes = 2\<close> caches two
  summaries; a second call for \<open>K\<close> with \<open>maxNodes = 1\<close> returns both, a list longer than
  its own bound.
\<close>

theorem fetchFileNodes_bound_counterexample:
  "\<not> length (fst (fetchFileNodes env_two_frames ''K'' 1 3
                   (snd (fetchFileNodes env_two_frames ''K'' 2 3 initial_state)))) \<le> 1"
  by (simp only: two_frames_second_call) simp

text \<open>
  C1 (amended). A call of \<open>fetchFileNodes\<close> with \<open>maxNodes = N\<close> that finds no cached node
  list for its file key returns at most \<open>N\<close> summaries, whatever the document and whether
  or not the remote fetch succeeds.
\<close>

theorem fetchFileNodes_miss_bounded:
  "cache_fileNodes s fileKey = None \<Longrightarrow>
     length (fst (fetchFileNodes e fileKey N maxDepth s)) \<le> N"
  by (simp add: fetchFileNodes_def traverse_bound split: sum.splits)

theorem fetchFileNodes_miss_bounded_witness:
  "cache_fileNodes initial_state ''K'' = None \<and>
   length (fst (fetchFileNodes env_two_frames ''K'' 1 3 initial_state)) \<le> 1"
  using fetchFileNodes_miss_bounded [of initial_state "''K''" env_two_frames 1 3]
  by (simp add: initial_state_def)

text \<open>
  C10. A call of \<open>fetchFileNodes\<close> for a file key with a cached node list returns that
  list and leaves the state as it is, whatever \<open>maxNodes\<close> and \<open>maxDepth\<close> it passes; after
  a call that fetched and walked the document, every later call for the key returns the
  list of that first call, under the first call's bounds; and there is a call that fetches
  and walks the document followed by a call with a smaller \<open>maxNodes\<close> that receives a list
  longer than its own \<open>maxNodes\<close>.
\<close>

theorem fetchFileNodes_hit_ignores_bounds:
  "(\<forall>e fileKey N D s cached.
      cache_fileNodes s fileKey = Some cached \<longrightarrow>
      fetchFileNodes e fileKey N D s = (cached, s)) \<and>
   (\<forall>e e' fileKey N D N' D' s resp.
      cache_fileNodes s fileKey = None \<longrightarrow> api_file e fileKey = Inr resp \<longrightarrow>
      fetchFileNodes e' fileKey N' D' (snd (fetchFileNodes e fileKey N D s)) =
        (traverseNodes N D (resp_document resp) 0 [], snd (fetchFileNodes e fileKey N D s))) \<and>
   (\<exists>e fileKey N D N' D' s resp.
      cache_fileNodes s fileKey = None \<and> api_file e fileKey = Inr resp \<and> N' < N \<and>
      N' < length (fst (fetchFileNodes e fileKey N' D' (snd (fetchFileNodes e fileKey N D s)))))"
proof (intro conjI allI impI)
  fix e fileKey N D cached and s :: server_state
  assume "cache_fileNodes s fileKey = Some cached"
  then show "fetchFileNodes e fileKey N D s = (cached, s)"
    by (simp add: fetchFileNodes_def)
next
  fix e e' :: env and fileKey N D N' D' resp and s :: server_state
  assume "cache_fileNodes s fileKey = None" "api_file e fileKey = Inr resp"
  then show "fetchFileNodes e' fileKey N' D' (snd (fetchFileNodes e fileKey N D s)) =
        (traverseNodes N D (resp_document resp) 0 [], snd (fetchFileNodes e fileKey N D s))"
    by (simp add: fetchFileNodes_def log_call_def)
next
  have len: "(1::nat) < 2 \<and>
        1 < length (fst (fetchFileNodes env_two_frames ''K'' 1 3
                      (snd (fetchFileNodes env_two_frames ''K'' 2 3 initial_state))))"
    by (simp only: two_frames_second_call) simp
  have miss: "cache_fileNodes initial_state ''K'' = None"
    by (simp add: initial_state_def)
  have served: "api_file env_two_frames ''K'' =
                  Inr \<lparr> resp_name = ''Design'', resp_document = two_frames_doc \<rparr>"
    by (simp add: env_two_frames_def)
  from miss served len
  show "\<exists>e fileKey N D N' D' s resp.
      cache_fileNodes s fileKey = None \<and> api_file e fileKey = Inr resp \<and> N' < N \<and>
      N' < length (fst (fetchFileNodes e fileKey N' D' (snd (fetchFileNodes e fileKey N D s))))"
    by blast
qed

theorem fetchFileNodes_hit_ignores_bounds_witness:
  "cache_fileNodes (snd (fetchFileNodes env_two_frames ''K'' 2 3 initial_state)) ''K'' =
     Some (fst (fetchFileNodes env_two_frames ''K'' 2 3 initial_state)) \<and>
   fetchFileNodes env_two_frames ''K'' 1 0
       (snd (fetchFileNodes env_two_frames ''K'' 2 3 initial_state)) =
     (fst (fetchFileNodes env_two_frames ''K'' 2 3 initial_state),
      snd (fetchFileNodes env_two_frames ''K'' 2 3 initial_state))"
proof -
  have hit: "cache_fileNodes (snd (fetchFileNodes env_two_frames ''K'' 2 3 initial_state)) ''K'' =
     Some (fst (fetchFileNodes env_two_frames ''K'' 2 3 initial_state))"
    by (simp add: fetchFileNodes_def env_two_frames_def initial_state_def log_call_def)
  from fetchFileNodes_hit_ignores_bounds have
    "\<forall>e fileKey N D s cached.
      cache_fileNodes s fileKey = Some cached \<longrightarrow>
      fetchFileNodes e fileKey N D s = (cached, s)" by (rule conjunct1)
  with hit show ?thesis by blast
qed

section \<open>Name search\<close>

lemma hits_append [simp]: "hits t (xs @ ys) = hits t xs @ hits t ys"
  by (simp add: hits_def)

lemma hits_Cons:
  "hits t (x # xs) = (if name_hit t x then [search_summary x] else []) @ hits t xs"
  by (simp add: hits_def)

lemma hits_Nil [simp]: "hits t [] = []"
  by (simp add: hits_def)

lemma nodes_within_unfold:
  "nodes_within k node =
     node # (if k = 0 then [] else concat (map (nodes_within (k - 1)) (j_children node)))"
  by (cases k) simp_all

lemma take_all_append: "length xs \<ge> n \<Longrightarrow> take n (xs @ ys) = take n xs"
  by simp

text \<open>
  The search with its early exits is the plain listing cut at \<open>maxResults\<close>: once the
  accumulator is full every further call returns at once, so breaking out of the loops
  changes nothing.
\<close>

lemma search_take:
  "length acc \<le> M \<Longrightarrow>
     searchNodes t M node d m acc =
       take M (acc @ (if d \<le> m then hits t (nodes_within (m - d) node) else []))"
  "length acc \<le> M \<Longrightarrow>
     searchChildren t M cs d m acc =
       take M (acc @ (if d \<le> m then hits t (concat (map (nodes_within (m - d)) cs)) else []))"
proof (induction t M node d m acc and t M cs d m acc rule: searchNodes_searchChildren.induct)
  case (1 test maxResults node depth maxDepth matchingNodes)
  show ?case
  proof (cases "depth > maxDepth \<or> length matchingNodes \<ge> maxResults")
    case True
    with "1.prems" show ?thesis by auto
  next
    case False
    note F = False
    show ?thesis
    proof (cases "name_hit test node \<and>
                  length (matchingNodes @ [search_summary node]) \<ge> maxResults")
      case True
      with F "1.prems" have eq: "maxResults = Suc (length matchingNodes)" by auto
      from True F show ?thesis
        by (subst nodes_within_unfold) (simp add: hits_Cons eq del: searchChildren.simps)
    next
      case False
      have len: "length (if name_hit test node then matchingNodes @ [search_summary node]
                         else matchingNodes) \<le> maxResults"
        using F False "1.prems" by auto
      note IH = "1.IH"[OF F False len]
      have step: "searchNodes test maxResults node depth maxDepth matchingNodes =
          searchChildren test maxResults (j_children node) (depth + 1) maxDepth
             (if name_hit test node then matchingNodes @ [search_summary node]
              else matchingNodes)"
        using F False
        by (subst searchNodes.simps) (auto simp del: searchNodes.simps searchChildren.simps)
      have d: "depth \<le> maxDepth" using F by simp
      show ?thesis
      proof (cases "depth + 1 \<le> maxDepth")
        case True
        then have k: "maxDepth - depth \<noteq> 0" "maxDepth - depth - 1 = maxDepth - (depth + 1)"
          by auto
        show ?thesis
          unfolding step IH
          by (subst nodes_within_unfold [of "maxDepth - depth"]) (simp add: True d k hits_Cons)
      next
        case False
        then have k: "maxDepth - depth = 0" by auto
        show ?thesis
          unfolding step IH
          using False by (simp add: d k hits_Cons)
      qed
    qed
  qed
next
  case (2 test maxResults depth maxDepth matchingNodes)
  then show ?case by simp
next
  case (3 test maxResults child rest depth maxDepth matchingNodes)
  let ?H = "if depth \<le> maxDepth then hits test (nodes_within (maxDepth - depth) child) else []"
  let ?R = "if depth \<le> maxDepth
            then hits test (concat (map (nodes_within (maxDepth - depth)) rest)) else []"
  have r: "searchNodes test maxResults child depth maxDepth matchingNodes =
           take maxResults (matchingNodes @ ?H)"
    using "3.IH"(1)[OF "3.prems"] .
  have split: "(if depth \<le> maxDepth
                then hits test (concat (map (nodes_within (maxDepth - depth)) (child # rest)))
                else []) = ?H @ ?R"
    by simp
  show ?case
  proof (cases "length (searchNodes test maxResults child depth maxDepth matchingNodes)
                \<ge> maxResults")
    case True
    then have "length (matchingNodes @ ?H) \<ge> maxResults" unfolding r by simp
    then have t: "take maxResults ((matchingNodes @ ?H) @ ?R) =
                  take maxResults (matchingNodes @ ?H)"
      by (rule take_all_append)
    have "searchChildren test maxResults (child # rest) depth maxDepth matchingNodes =
          searchNodes test maxResults child depth maxDepth matchingNodes"
      using True by (simp del: searchNodes.simps)
    also have "\<dots> = take maxResults ((matchingNodes @ ?H) @ ?R)"
      unfolding t by (rule r)
    finally show ?thesis unfolding split by (simp only: append_assoc)
  next
    case False
    then have short: "length (matchingNodes @ ?H) < maxResults" unfolding r by simp
    then have all: "searchNodes test maxResults child depth maxDepth matchingNodes =
                    matchingNodes @ ?H"
      unfolding r by simp
    have len: "length (searchNodes test maxResults child depth maxDepth matchingNodes)
               \<le> maxResults"
      using False by simp
    note IH = "3.IH"(4)[OF False len]
    have "searchChildren test maxResults (child # rest) depth maxDepth matchingNodes =
          searchChildren test maxResults rest depth maxDepth
             (searchNodes test maxResults child depth maxDepth matchingNodes)"
      using False by (simp del: searchNodes.simps)
    also have "\<dots> = take maxResults
          (searchNodes test maxResults child depth maxDepth matchingNodes @ ?R)"
      by (rule IH)
    also have "\<dots> = take maxResults ((matchingNodes @ ?H) @ ?R)"
      by (simp only: all)
    finally show ?thesis unfolding split by (simp only: append_assoc)
  qed
qed

lemma match_here_literal:
  "match_here (map Lit q) s = prefix (toUpperCase q) (toUpperCase s)"
  by (induction q arbitrary: s) (case_tac [2] s, auto simp: toUpperCase_def)

lemma match_anywhere_literal:
  "match_anywhere (map Lit q) s = sublist (toUpperCase q) (toUpperCase s)"
proof (induction s)
  case Nil
  then show ?case by (cases q) (simp_all add: toUpperCase_def)
next
  case (Cons c cs)
  have "sublist (toUpperCase q) (toUpperCase (c # cs)) =
        (prefix (toUpperCase q) (toUpperCase (c # cs)) \<or>
         sublist (toUpperCase q) (toUpperCase cs))"
    by (simp add: toUpperCase_def sublist_Cons_right)
  with Cons show ?case by (simp add: match_here_literal del: match_here.simps)
qed

lemma compile_literal: "is_literal q \<Longrightarrow> compile_fragment q = map Lit q"
  by (induction q) (auto simp: is_literal_def compile_fragment_def syntax_characters_def)

lemma literal_in_fragment: "is_literal q \<Longrightarrow> in_fragment q"
  by (induction q) (auto simp: is_literal_def in_fragment_def)

lemma name_hit_literal:
  "is_literal q \<Longrightarrow> name_hit (match_anywhere (compile_fragment q)) = spec_name_matches q"
  by (rule ext)
     (auto simp: name_hit_def spec_name_matches_def contains_ci_def truthy_def compile_literal
        match_anywhere_literal split: option.splits)

lemma hits_named: "r \<in> set (hits t ns) \<Longrightarrow> truthy (node_name r)"
  by (auto simp: hits_def search_summary_def name_hit_def)

lemma searchNodes_named:
  "r \<in> set (searchNodes t M node 0 m []) \<Longrightarrow> truthy (node_name r)"
  by (auto simp: search_take(1) hits_named dest!: in_set_takeD simp del: searchNodes.simps)

lemmas eval_strings = toUpperCase_def toUpperCase_char_def toLowerCase_def toLowerCase_char_def
  upper_letters_def lower_letters_def truthy_def or_else_def

lemmas eval_search = findNodesByName_def RegExp_i_def in_fragment_def compile_fragment_def
  syntax_characters_def line_terminators_def name_hit_def search_summary_def env_serving_def
  initial_state_def no_other_patterns_def log_call_def

text \<open>
  C2 (as stated, refuted), at three inputs. The query \<open>a.c\<close> records the node named
  \<open>abc\<close>, whose name does not contain \<open>a.c\<close>: the dot is a pattern operator. The empty
  query does not record a node whose name field is the empty string, although the empty
  query is contained in it. With \<open>maxResults = 1\<close> the node \<open>nav-icon\<close> below the node
  \<open>nav\<close> is not recorded, although its name contains \<open>nav\<close>.
\<close>

theorem findNodesByName_counterexample:
  "fst (findNodesByName no_other_patterns (env_serving abc_node) ''K'' ''a.c'' 10 initial_state) =
     Inr [search_summary abc_node] \<and>
   \<not> contains_ci ''a.c'' ''abc'' \<and>
   fst (findNodesByName no_other_patterns (env_serving blank_node) ''K'' [] 10 initial_state) =
     Inr [] \<and>
   j_name blank_node = Some [] \<and> contains_ci [] [] \<and>
   fst (findNodesByName no_other_patterns (env_serving nav_pair) ''K'' ''nav'' 1 initial_state) =
     Inr [search_summary nav_pair] \<and>
   contains_ci ''nav'' ''nav-icon''"
  by (simp add: eval_search eval_strings abc_node_def blank_node_def nav_pair_def contains_ci_def
      sublist_code)

text \<open>
  C2 (amended). For a query without regular-expression syntax characters,
  \<open>findNodesByName\<close> returns the summaries of the first \<open>maxResults\<close> nodes, in document
  order, among the nodes at depth at most 10 whose name is present, not empty and
  contains the query case-insensitively. For every query, each recorded node has a name
  that is present and not empty.
\<close>

theorem findNodesByName_literal_query:
  assumes "api_file e fileKey = Inr resp"
  shows "(is_literal q \<longrightarrow>
           fst (findNodesByName other e fileKey q maxResults s) =
             Inr (take maxResults (map search_summary
                    (filter (spec_name_matches q) (nodes_within 10 (resp_document resp)))))) \<and>
         (\<forall>rs. fst (findNodesByName other e fileKey q maxResults s) = Inr rs \<longrightarrow>
               (\<forall>r \<in> set rs. truthy (node_name r)))"
proof (intro conjI impI allI ballI)
  assume "is_literal q"
  with assms show "fst (findNodesByName other e fileKey q maxResults s) =
             Inr (take maxResults (map search_summary
                    (filter (spec_name_matches q) (nodes_within 10 (resp_document resp)))))"
    by (simp add: findNodesByName_def RegExp_i_def literal_in_fragment search_take(1) hits_def
        name_hit_literal del: searchNodes.simps)
next
  fix rs r
  assume "fst (findNodesByName other e fileKey q maxResults s) = Inr rs" "r \<in> set rs"
  with assms show "truthy (node_name r)"
    by (auto simp: findNodesByName_def searchNodes_named split: sum.splits
        simp del: searchNodes.simps)
qed

theorem findNodesByName_literal_query_witness:
  "api_file (env_serving nav_doc) ''K'' = Inr \<lparr> resp_name = ''Design'', resp_document = nav_doc \<rparr> \<and>
   is_literal ''nav'' \<and>
   fst (findNodesByName no_other_patterns (env_serving nav_doc) ''K'' ''nav'' 10 initial_state) =
     Inr [\<lparr> node_id = ''1:1'', node_name = Some ''Navbar'', node_type = ''FRAME'',
             node_description = Some ''A frame from Figma'' \<rparr>,
          \<lparr> node_id = ''1:2'', node_name = Some ''Navigation'', node_type = ''Unknown'',
             node_description = Some ''A node from Figma'' \<rparr>,
          \<lparr> node_id = ''1:4'', node_name = Some ''nav-icon'', node_type = ''VECTOR'',
             node_description = Some ''An icon'' \<rparr>]"
proof -
  have a: "api_file (env_serving nav_doc) ''K'' =
           Inr \<lparr> resp_name = ''Design'', resp_document = nav_doc \<rparr>"
    by (simp add: env_serving_def)
  have l: "is_literal ''nav''"
    by (simp add: is_literal_def syntax_characters_def)
  from findNodesByName_literal_query [OF a, of "''nav''" no_other_patterns 10 initial_state] l
  have "fst (findNodesByName no_other_patterns (env_serving nav_doc) ''K'' ''nav'' 10 initial_state) =
     Inr (take 10 (map search_summary
            (filter (spec_name_matches ''nav'') (nodes_within 10 nav_doc))))"
    by simp
  also have "\<dots> = Inr [\<lparr> node_id = ''1:1'', node_name = Some ''Navbar'', node_type = ''FRAME'',
             node_description = Some ''A frame from Figma'' \<rparr>,
          \<lparr> node_id = ''1:2'', node_name = Some ''Navigation'', node_type = ''Unknown'',
             node_description = Some ''A node from Figma'' \<rparr>,
          \<lparr> node_id = ''1:4'', node_name = Some ''nav-icon'', node_type = ''VECTOR'',
             node_description = Some ''An icon'' \<rparr>]"
    by (simp add: nav_doc_def eval_nat_numeral spec_name_matches_def contains_ci_def sublist_code
        search_summary_def eval_strings)
  finally show ?thesis using a l by simp
qed

section \<open>Node address parsing\<close>

text \<open>
  C3 (the code loses the tail). The short form \<open>ABC/4/5\<close> parses to file key \<open>ABC\<close> and
  node id \<open>4\<close>: \<open>split('/', 2)\<close> splits at every slash and keeps the first two pieces, so
  \<open>/5\<close> is lost. The scheme form of the same address keeps the node id \<open>4/5\<close>.
\<close>

theorem parseNodeUri_short_form_truncates:
  "fst (parseNodeUri e ''ABC/4/5'' s) = Inr (''ABC'', ''4'') \<and>
   fst (parseNodeUri e ''figma://node/ABC/4/5'' s) = Inr (''ABC'', ''4/5'')"
  by (simp add: parseNodeUri_def checkParsed_def figmaPattern_def line_terminators_def)

section \<open>Shallow scan\<close>

text \<open>
  C4 (the code exceeds the limit). With limit 1, a page holding a component set of two
  variants yields three entries: the children of the set are pushed with no limit check.
\<close>

theorem fetchTopLevelComponents_exceeds_limit:
  "fst (fetchTopLevelComponents (env_serving variants_doc) ''K'' 1 initial_state) =
     Inr [\<lparr> comp_id = ''1:1'', comp_name = Some ''Button'', comp_type = ''COMPONENT_SET'',
             comp_description = [] \<rparr>,
          \<lparr> comp_id = ''1:2'', comp_name = Some ''State=Default'', comp_type = ''COMPONENT'',
             comp_description = [] \<rparr>,
          \<lparr> comp_id = ''1:3'', comp_name = Some ''State=Hover'', comp_type = ''COMPONENT'',
             comp_description = [] \<rparr>]"
  by (simp add: fetchTopLevelComponents_def env_serving_def variants_doc_def isComponentLike_def
      to_component_def or_else_def truthy_def)

section \<open>Active file\<close>

lemma issued_log_call [simp]: "issued s (log_call c s) = [c]"
  by (simp add: issued_def log_call_def)

lemma issued_self [simp]: "issued s s = []"
  by (simp add: issued_def)

text \<open>
  C5. \<open>set_active_figma_file\<close> writes the pointer only after the direct fetch of the file
  has succeeded. When the fetch fails the result is an error naming the key, and the
  pointer and all three cache mappings are as before. A non-empty key causes exactly one
  remote call, the fetch of that file; the empty key is refused with no call and no
  change. A successful result, a changed pointer or a changed file list each imply that
  the fetch was issued and succeeded.
\<close>

theorem set_active_figma_file_commits_after_check:
  "(\<forall>m. api_file e fileKey = Inl m \<longrightarrow>
        (\<exists>msg. fst (set_active_figma_file e fileKey s) = Inl (Error msg)) \<and>
        activeFileKey (snd (set_active_figma_file e fileKey s)) = activeFileKey s \<and>
        cache_files (snd (set_active_figma_file e fileKey s)) = cache_files s \<and>
        cache_fileNodes (snd (set_active_figma_file e fileKey s)) = cache_fileNodes s \<and>
        cache_nodeDetails (snd (set_active_figma_file e fileKey s)) = cache_nodeDetails s) \<and>
   (\<forall>m. fileKey \<noteq> [] \<longrightarrow> api_file e fileKey = Inl m \<longrightarrow>
        fst (set_active_figma_file e fileKey s) =
          Inl (Error (''File with key '' @ fileKey @ '' not found or not accessible''))) \<and>
   (fileKey \<noteq> [] \<longrightarrow> issued s (snd (set_active_figma_file e fileKey s)) = [GET_file fileKey]) \<and>
   (fileKey = [] \<longrightarrow>
        set_active_figma_file e fileKey s = (Inl (Error ''File key is required''), s)) \<and>
   (\<forall>resp. fileKey \<noteq> [] \<longrightarrow> api_file e fileKey = Inr resp \<longrightarrow>
        (\<exists>text. fst (set_active_figma_file e fileKey s) = Inr text) \<and>
        activeFileKey (snd (set_active_figma_file e fileKey s)) = fileKey) \<and>
   (\<forall>text. fst (set_active_figma_file e fileKey s) = Inr text \<longrightarrow>
        (\<exists>resp. api_file e fileKey = Inr resp) \<and>
        issued s (snd (set_active_figma_file e fileKey s)) = [GET_file fileKey]) \<and>
   (activeFileKey (snd (set_active_figma_file e fileKey s)) \<noteq> activeFileKey s \<or>
    cache_files (snd (set_active_figma_file e fileKey s)) \<noteq> cache_files s \<longrightarrow>
        (\<exists>resp. api_file e fileKey = Inr resp) \<and>
        issued s (snd (set_active_figma_file e fileKey s)) = [GET_file fileKey])"
  by (cases "api_file e fileKey")
     (auto simp: set_active_figma_file_def log_call_def issued_def)

theorem set_active_figma_file_commits_after_check_witness:
  "api_file env_down ''NEW'' = Inl ''Network Error'' \<and>
   fst (set_active_figma_file env_down ''NEW'' state_old_active) =
     Inl (Error ''File with key NEW not found or not accessible'') \<and>
   activeFileKey (snd (set_active_figma_file env_down ''NEW'' state_old_active)) = ''OLD'' \<and>
   cache_files (snd (set_active_figma_file env_down ''NEW'' state_old_active)) = [old_file]"
proof -
  have a: "api_file env_down ''NEW'' = Inl ''Network Error''"
    by (simp add: env_down_def)
  have n: "''NEW'' \<noteq> []" by simp
  from set_active_figma_file_commits_after_check [of env_down "''NEW''" state_old_active] a n
  have "fst (set_active_figma_file env_down ''NEW'' state_old_active) =
          Inl (Error (''File with key '' @ ''NEW'' @ '' not found or not accessible'')) \<and>
        activeFileKey (snd (set_active_figma_file env_down ''NEW'' state_old_active)) =
          activeFileKey state_old_active \<and>
        cache_files (snd (set_active_figma_file env_down ''NEW'' state_old_active)) =
          cache_files state_old_active"
    by blast
  with a show ?thesis by (simp add: state_old_active_def)
qed

lemma fetchFigmaFiles_issues_listing:
  "GET_me_files \<in> set (issued s (snd (fetchFigmaFiles e s))) \<longleftrightarrow> cache_files s = []"
  by (auto simp: fetchFigmaFiles_def issued_def log_call_def Let_def split: sum.splits)

text \<open>
  C6. When \<open>fetchFigmaFiles\<close> issues the listing call and it fails: with an active or
  default key whose direct fetch succeeds, the result is exactly one file record, with
  that key and the name of the response; when the direct fetch fails too, or there is no
  key, the result is the empty list.
\<close>

theorem fetchFigmaFiles_listing_failure:
  assumes "GET_me_files \<in> set (issued s (snd (fetchFigmaFiles e s)))"
    and "api_me_files e = Inl m"
  shows "(\<forall>resp. (activeFileKey s \<noteq> [] \<or> FIGMA_DEFAULT_FILE e \<noteq> []) \<longrightarrow>
            api_file e (if activeFileKey s \<noteq> [] then activeFileKey s else FIGMA_DEFAULT_FILE e)
              = Inr resp \<longrightarrow>
            fst (fetchFigmaFiles e s) =
              [\<lparr> file_key = (if activeFileKey s \<noteq> [] then activeFileKey s
                              else FIGMA_DEFAULT_FILE e),
                  file_name = resp_name resp, file_lastModified = now e,
                  file_thumbnailUrl = None \<rparr>] \<and>
            length (fst (fetchFigmaFiles e s)) = 1) \<and>
         (\<forall>m'. api_file e (if activeFileKey s \<noteq> [] then activeFileKey s
                             else FIGMA_DEFAULT_FILE e) = Inl m' \<longrightarrow>
            fst (fetchFigmaFiles e s) = []) \<and>
         (activeFileKey s = [] \<and> FIGMA_DEFAULT_FILE e = [] \<longrightarrow> fst (fetchFigmaFiles e s) = [])"
proof -
  from assms(1) have "cache_files s = []" by (simp add: fetchFigmaFiles_issues_listing)
  with assms(2) show ?thesis
    by (auto simp: fetchFigmaFiles_def Let_def)
qed

theorem fetchFigmaFiles_listing_failure_witness:
  "GET_me_files \<in> set (issued state_default_active
                          (snd (fetchFigmaFiles env_default state_default_active))) \<and>
   api_me_files env_default = Inl ''Request failed with status code 404'' \<and>
   fst (fetchFigmaFiles env_default state_default_active) =
     [\<lparr> file_key = ''DEF'', file_name = ''Design system'',
         file_lastModified = ''2025-01-01T00:00:00.000Z'', file_thumbnailUrl = None \<rparr>] \<and>
   length (fst (fetchFigmaFiles env_default state_default_active)) = 1"
proof -
  have i: "GET_me_files \<in> set (issued state_default_active
                          (snd (fetchFigmaFiles env_default state_default_active)))"
    by (simp add: fetchFigmaFiles_issues_listing state_default_active_def)
  have m: "api_me_files env_default = Inl ''Request failed with status code 404''"
    by (simp add: env_default_def)
  have k: "activeFileKey state_default_active \<noteq> [] \<or> FIGMA_DEFAULT_FILE env_default \<noteq> []"
    by (simp add: state_default_active_def)
  have f: "api_file env_default
             (if activeFileKey state_default_active \<noteq> [] then activeFileKey state_default_active
              else FIGMA_DEFAULT_FILE env_default) =
           Inr \<lparr> resp_name = ''Design system'', resp_document = two_frames_doc \<rparr>"
    by (simp add: env_default_def state_default_active_def)
  from fetchFigmaFiles_listing_failure [OF i m] k f
  have "fst (fetchFigmaFiles env_default state_default_active) =
          [\<lparr> file_key = (if activeFileKey state_default_active \<noteq> []
                          then activeFileKey state_default_active
                          else FIGMA_DEFAULT_FILE env_default),
              file_name = resp_name \<lparr> resp_name = ''Design system'',
                                      resp_document = two_frames_doc \<rparr>,
              file_lastModified = now env_default, file_thumbnailUrl = None \<rparr>] \<and>
        length (fst (fetchFigmaFiles env_default state_default_active)) = 1"
    by blast
  with i m show ?thesis by (simp add: env_default_def state_default_active_def)
qed

lemma fetchFigmaFiles_keeps_pointer [simp]:
  "activeFileKey (snd (fetchFigmaFiles e s)) = activeFileKey s"
  by (auto simp: fetchFigmaFiles_def log_call_def Let_def split: sum.splits)

text \<open>
  C9. File keys are identifiers and not empty. Then \<open>getActiveFile\<close> returns the file of
  the fetched list whose key equals the active-file pointer (the first such file) when
  one exists; otherwise the first file of the list when the list is not empty; and none
  exactly when the fetched list is empty. An empty pointer means that no active file is
  set: it equals no key, and the first file is returned.
\<close>

theorem getActiveFile_resolution:
  assumes "\<forall>file \<in> set (fst (fetchFigmaFiles e s)). file_key file \<noteq> []"
  shows "(\<forall>f. find (\<lambda>file. file_key file = activeFileKey s) (fst (fetchFigmaFiles e s)) = Some f
              \<longrightarrow> fst (getActiveFile e s) = Some f) \<and>
         (fst (fetchFigmaFiles e s) \<noteq> [] \<longrightarrow>
            find (\<lambda>file. file_key file = activeFileKey s) (fst (fetchFigmaFiles e s)) = None
              \<longrightarrow> fst (getActiveFile e s) = Some (hd (fst (fetchFigmaFiles e s)))) \<and>
         (fst (getActiveFile e s) = None \<longleftrightarrow> fst (fetchFigmaFiles e s) = [])"
proof -
  obtain files s1 where f: "fetchFigmaFiles e s = (files, s1)" by (cases "fetchFigmaFiles e s")
  have p: "activeFileKey s1 = activeFileKey s"
    using fetchFigmaFiles_keeps_pointer [of e s] f by simp
  from assms f have keys: "\<forall>file \<in> set files. file_key file \<noteq> []" by simp
  have unset: "find (\<lambda>file. file_key file = activeFileKey s) files = None"
    if "activeFileKey s = []"
    using keys that by (auto simp: find_None_iff)
  show ?thesis
    using unset by (auto simp: getActiveFile_def f p split: option.splits)
qed

theorem getActiveFile_resolution_witness:
  "fst (fetchFigmaFiles env_down state_pointer_B) = [file_A, file_B] \<and>
   file_key file_A = ''A'' \<and> file_key file_B = ''B'' \<and>
   find (\<lambda>file. file_key file = activeFileKey state_pointer_B)
        (fst (fetchFigmaFiles env_down state_pointer_B)) = Some file_B \<and>
   fst (getActiveFile env_down state_pointer_B) = Some file_B"
proof -
  have l: "fst (fetchFigmaFiles env_down state_pointer_B) = [file_A, file_B]"
    by (simp add: fetchFigmaFiles_def state_pointer_B_def)
  have k: "file_key file_A = ''A''" "file_key file_B = ''B''"
    by (simp_all add: file_A_def file_B_def)
  have ap: "activeFileKey state_pointer_B = ''B''"
    by (simp add: state_pointer_B_def)
  have a: "\<forall>file \<in> set (fst (fetchFigmaFiles env_down state_pointer_B)). file_key file \<noteq> []"
    by (simp add: l k)
  have b: "find (\<lambda>file. file_key file = activeFileKey state_pointer_B)
        (fst (fetchFigmaFiles env_down state_pointer_B)) = Some file_B"
    unfolding l ap by (simp add: k)
  from getActiveFile_resolution [OF a] b
  have "fst (getActiveFile env_down state_pointer_B) = Some file_B" by blast
  with l k b show ?thesis by simp
qed

section \<open>Remote failures\<close>

text \<open>
  C8 (as stated, refuted). With every endpoint failing, \<open>fetchFileNodes\<close> answers with the
  empty list and \<open>fetchNodeDetails\<close> with \<open>null\<close>: neither surfaces an error.
\<close>

theorem remote_failure_counterexample:
  "fst (fetchFileNodes env_down ''K'' 50 3 initial_state) = [] \<and>
   fst (fetchNodeDetails env_down ''K'' ''1:2'' initial_state) = None"
  by (simp add: fetchFileNodes_def fetchNodeDetails_def env_down_def initial_state_def)

text \<open>
  C8 (amended). When the file fetch fails, \<open>fetchTopLevelComponents\<close>, \<open>findNodesByName\<close>
  and \<open>set_active_figma_file\<close> (for a non-empty key) raise an error whose message names
  the operation, and \<open>fetchFileNodes\<close> on a cache miss returns the empty list and caches
  nothing. When the node fetch fails, \<open>fetchNodeDetails\<close> on a cache miss returns \<open>null\<close>
  and caches nothing.
\<close>

theorem remote_failure_outcomes:
  "(\<forall>m. api_file e fileKey = Inl m \<longrightarrow>
      fst (fetchTopLevelComponents e fileKey limit s) =
        Inl (Error (''Failed to fetch components from file '' @ fileKey @ '': '' @ m)) \<and>
      fst (findNodesByName other e fileKey name maxResults s) =
        Inl (Error (''Failed to search for nodes by name: '' @ m)) \<and>
      (fileKey \<noteq> [] \<longrightarrow>
         fst (set_active_figma_file e fileKey s) =
           Inl (Error (''File with key '' @ fileKey @ '' not found or not accessible''))) \<and>
      (cache_fileNodes s fileKey = None \<longrightarrow>
         fetchFileNodes e fileKey maxNodes maxDepth s = ([], log_call (GET_file fileKey) s))) \<and>
   (\<forall>m. api_nodes e fileKey nodeId = Inl m \<longrightarrow>
      (\<forall>d. cache_nodeDetails s (fileKey @ '':'' @ nodeId) \<noteq> Some (Some d)) \<longrightarrow>
      fetchNodeDetails e fileKey nodeId s = (None, log_call (GET_nodes fileKey nodeId) s))"
  by (auto simp: fetchTopLevelComponents_def findNodesByName_def set_active_figma_file_def
      fetchFileNodes_def fetchNodeDetails_def split: option.splits)

theorem remote_failure_outcomes_witness:
  "api_file env_down ''K'' = Inl ''Network Error'' \<and>
   fst (fetchTopLevelComponents env_down ''K'' 10 initial_state) =
     Inl (Error ''Failed to fetch components from file K: Network Error'') \<and>
   fst (findNodesByName no_other_patterns env_down ''K'' ''nav'' 10 initial_state) =
     Inl (Error ''Failed to search for nodes by name: Network Error'') \<and>
   fetchFileNodes env_down ''K'' 50 3 initial_state = ([], log_call (GET_file ''K'') initial_state)"
proof -
  have a: "api_file env_down ''K'' = Inl ''Network Error''" by (simp add: env_down_def)
  have c: "cache_fileNodes initial_state ''K'' = None" by (simp add: initial_state_def)
  from remote_failure_outcomes [of env_down "''K''" 10 initial_state no_other_patterns "''nav''" 10 50 3] a c
  have "fst (fetchTopLevelComponents env_down ''K'' 10 initial_state) =
        Inl (Error (''Failed to fetch components from file '' @ ''K'' @ '': '' @ ''Network Error'')) \<and>
      fst (findNodesByName no_other_patterns env_down ''K'' ''nav'' 10 initial_state) =
        Inl (Error (''Failed to search for nodes by name: '' @ ''Network Error'')) \<and>
      fetchFileNodes env_down ''K'' 50 3 initial_state = ([], log_call (GET_file ''K'') initial_state)"
    by blast
  with a show ?thesis by simp
qed

section \<open>Cache entries\<close>

lemma fetchFigmaFiles_frame:
  "cache_fileNodes (snd (fetchFigmaFiles e s)) = cache_fileNodes s"
  "cache_nodeDetails (snd (fetchFigmaFiles e s)) = cache_nodeDetails s"
  "prefix (cache_files s) (cache_files (snd (fetchFigmaFiles e s)))"
  by (auto simp: fetchFigmaFiles_def log_call_def Let_def split: sum.splits)

lemma log_call_frame [simp]:
  "cache_files (log_call c s) = cache_files s"
  "cache_fileNodes (log_call c s) = cache_fileNodes s"
  "cache_nodeDetails (log_call c s) = cache_nodeDetails s"
  "activeFileKey (log_call c s) = activeFileKey s"
  by (simp_all add: log_call_def)

lemma getActiveFile_state: "snd (getActiveFile e s) = snd (fetchFigmaFiles e s)"
  by (simp add: getActiveFile_def split: prod.splits option.splits)

lemma fetchFileNodes_frame:
  "cache_files (snd (fetchFileNodes e k N D s)) = cache_files s"
  "cache_nodeDetails (snd (fetchFileNodes e k N D s)) = cache_nodeDetails s"
  "cache_fileNodes s k' = Some v \<Longrightarrow> cache_fileNodes (snd (fetchFileNodes e k N D s)) k' = Some v"
  by (auto simp: fetchFileNodes_def split: option.splits sum.splits)

lemma fetchTopLevelComponents_state:
  "snd (fetchTopLevelComponents e k L s) = log_call (GET_file k) s"
  by (simp add: fetchTopLevelComponents_def split: sum.splits)

lemma findNodesByName_state:
  "snd (findNodesByName other e k q M s) = log_call (GET_file k) s"
  by (simp add: findNodesByName_def split: sum.splits)

lemma fetchNodeDetails_frame:
  "cache_files (snd (fetchNodeDetails e k n s)) = cache_files s"
  "cache_fileNodes (snd (fetchNodeDetails e k n s)) = cache_fileNodes s"
  "cache_nodeDetails s ck = Some (Some d) \<Longrightarrow>
     cache_nodeDetails (snd (fetchNodeDetails e k n s)) ck = Some (Some d)"
  by (auto simp: fetchNodeDetails_def split: option.splits sum.splits)

lemma set_active_figma_file_frame:
  "cache_fileNodes (snd (set_active_figma_file e k s)) = cache_fileNodes s"
  "cache_nodeDetails (snd (set_active_figma_file e k s)) = cache_nodeDetails s"
  "prefix (cache_files s) (cache_files (snd (set_active_figma_file e k s)))"
  by (auto simp: set_active_figma_file_def split: option.splits sum.splits)

lemma verify_token_file_frame:
  "cache_fileNodes (snd (verify_token_file e k s)) = cache_fileNodes s"
  "cache_nodeDetails (snd (verify_token_file e k s)) = cache_nodeDetails s"
  "prefix (cache_files s) (cache_files (snd (verify_token_file e k s)))"
proof -
  obtain files s1 where f: "fetchFigmaFiles e s = (files, s1)" by (cases "fetchFigmaFiles e s")
  then have s1: "s1 = snd (fetchFigmaFiles e s)" by simp
  have p: "prefix (cache_files s) (cache_files s1)"
    and n: "cache_fileNodes s1 = cache_fileNodes s"
    and d: "cache_nodeDetails s1 = cache_nodeDetails s"
    unfolding s1 by (rule fetchFigmaFiles_frame)+
  show "cache_fileNodes (snd (verify_token_file e k s)) = cache_fileNodes s"
    by (simp add: verify_token_file_def f n split: option.splits sum.splits)
  show "cache_nodeDetails (snd (verify_token_file e k s)) = cache_nodeDetails s"
    by (simp add: verify_token_file_def f d split: option.splits sum.splits)
  show "prefix (cache_files s) (cache_files (snd (verify_token_file e k s)))"
    using p by (auto simp: verify_token_file_def f split: option.splits sum.splits)
qed

lemma parseNodeUri_state:
  "snd (parseNodeUri e u s) = s \<or> snd (parseNodeUri e u s) = snd (fetchFigmaFiles e s)"
proof -
  have "snd (getActiveFile e s) = snd (fetchFigmaFiles e s)" by (rule getActiveFile_state)
  then show ?thesis
    by (auto simp: parseNodeUri_def Let_def split: option.splits prod.splits)
qed

lemma step_keeps_fileNodes:
  "cache_fileNodes s k = Some v \<Longrightarrow> cache_fileNodes (step other e op s) k = Some v"
proof (cases op)
  case (Op_parseNodeUri u)
  assume "cache_fileNodes s k = Some v"
  with parseNodeUri_state [of e u s] Op_parseNodeUri show ?thesis
    by (auto simp: fetchFigmaFiles_frame)
qed (simp_all add: fetchFigmaFiles_frame getActiveFile_state fetchFileNodes_frame
       fetchTopLevelComponents_state findNodesByName_state fetchNodeDetails_frame
       set_active_figma_file_frame verify_token_file_frame)

lemma step_keeps_nodeDetails:
  "cache_nodeDetails s ck = Some (Some d) \<Longrightarrow>
     cache_nodeDetails (step other e op s) ck = Some (Some d)"
proof (cases op)
  case (Op_parseNodeUri u)
  assume "cache_nodeDetails s ck = Some (Some d)"
  with parseNodeUri_state [of e u s] Op_parseNodeUri show ?thesis
    by (auto simp: fetchFigmaFiles_frame)
qed (simp_all add: fetchFigmaFiles_frame getActiveFile_state fetchFileNodes_frame
       fetchTopLevelComponents_state findNodesByName_state fetchNodeDetails_frame
       set_active_figma_file_frame verify_token_file_frame)

lemma step_extends_files:
  "prefix (cache_files s) (cache_files (step other e op s))"
proof (cases op)
  case (Op_parseNodeUri u)
  with parseNodeUri_state [of e u s] show ?thesis
    by (auto simp: fetchFigmaFiles_frame)
qed (simp_all add: fetchFigmaFiles_frame getActiveFile_state fetchFileNodes_frame
       fetchTopLevelComponents_state findNodesByName_state fetchNodeDetails_frame
       set_active_figma_file_frame verify_token_file_frame)

lemma run_keeps_fileNodes:
  "cache_fileNodes s k = Some v \<Longrightarrow> cache_fileNodes (run other ops s) k = Some v"
  by (induction ops arbitrary: s) (auto simp: step_keeps_fileNodes)

lemma run_keeps_nodeDetails:
  "cache_nodeDetails s ck = Some (Some d) \<Longrightarrow>
     cache_nodeDetails (run other ops s) ck = Some (Some d)"
  by (induction ops arbitrary: s) (auto simp: step_keeps_nodeDetails)

lemma run_extends_files:
  "prefix (cache_files s) (cache_files (run other ops s))"
proof (induction ops arbitrary: s)
  case Nil
  show ?case by simp
next
  case (Cons a ops)
  obtain e op where a: "a = (e, op)" by (cases a)
  have "prefix (cache_files s) (cache_files (step other e op s))" by (rule step_extends_files)
  also have "prefix \<dots> (cache_files (run other ops (step other e op s)))" by (rule Cons.IH)
  finally show ?case by (simp add: a)
qed

text \<open>
  C7 (as stated, refuted). After the listing has filled the cached file list with one
  file, \<open>set_active_figma_file\<close> for another key appends a second file to it: the value
  of the file-list entry changes. And a node-detail entry written by a fetch that
  succeeded with a \<open>null\<close> entry is not used by the next fetch for the same key, which
  issues the remote call again.
\<close>

theorem cache_entries_counterexample:
  "cache_files (snd (fetchFigmaFiles env_listing initial_state)) = [file_A] \<and>
   cache_files (step no_other_patterns env_listing (Op_set_active_figma_file ''B'')
                  (snd (fetchFigmaFiles env_listing initial_state))) =
     [file_A, \<lparr> file_key = ''B'', file_name = ''Design'',
                 file_lastModified = ''2025-01-01T00:00:00.000Z'', file_thumbnailUrl = None \<rparr>] \<and>
   cache_nodeDetails (snd (fetchNodeDetails env_listing ''A'' ''9:9'' initial_state)) ''A:9:9'' =
     Some None \<and>
   issued (snd (fetchNodeDetails env_listing ''A'' ''9:9'' initial_state))
          (snd (fetchNodeDetails env_listing ''A'' ''9:9''
                  (snd (fetchNodeDetails env_listing ''A'' ''9:9'' initial_state)))) =
     [GET_nodes ''A'' ''9:9'']"
  by (simp add: fetchFigmaFiles_def set_active_figma_file_def fetchNodeDetails_def
      env_listing_def initial_state_def log_call_def issued_def file_A_def)

text \<open>
  C7 (amended). Over every sequence of operations: a cached node list keeps its value,
  and a fetch for its file key returns it with no remote call and no change of state; a
  cached node detail that is not \<open>null\<close> keeps its value, and a fetch for its key returns
  it with no remote call; the cached file list is only ever extended at its end, and once
  it is not empty a fetch of the file list returns the cached list with no remote call.
\<close>

theorem cache_entries_stale_forever:
  "(\<forall>k v. cache_fileNodes s k = Some v \<longrightarrow>
       cache_fileNodes (run other ops s) k = Some v \<and>
       (\<forall>e N D. fetchFileNodes e k N D (run other ops s) = (v, run other ops s))) \<and>
   (\<forall>k n d. cache_nodeDetails s (k @ '':'' @ n) = Some (Some d) \<longrightarrow>
       cache_nodeDetails (run other ops s) (k @ '':'' @ n) = Some (Some d) \<and>
       (\<forall>e. fetchNodeDetails e k n (run other ops s) = (Some d, run other ops s))) \<and>
   prefix (cache_files s) (cache_files (run other ops s)) \<and>
   (cache_files s \<noteq> [] \<longrightarrow>
       (\<forall>e. fetchFigmaFiles e (run other ops s) =
              (cache_files (run other ops s), run other ops s)))"
proof (intro conjI allI impI)
  fix k v assume "cache_fileNodes s k = Some v"
  then show c: "cache_fileNodes (run other ops s) k = Some v" by (rule run_keeps_fileNodes)
  fix e N D
  from c show "fetchFileNodes e k N D (run other ops s) = (v, run other ops s)"
    by (simp add: fetchFileNodes_def)
next
  fix k n d assume "cache_nodeDetails s (k @ '':'' @ n) = Some (Some d)"
  then show c: "cache_nodeDetails (run other ops s) (k @ '':'' @ n) = Some (Some d)"
    by (rule run_keeps_nodeDetails)
  fix e
  from c show "fetchNodeDetails e k n (run other ops s) = (Some d, run other ops s)"
    by (simp add: fetchNodeDetails_def)
next
  show "prefix (cache_files s) (cache_files (run other ops s))" by (rule run_extends_files)
next
  fix e assume "cache_files s \<noteq> []"
  with run_extends_files [of s other ops] have "cache_files (run other ops s) \<noteq> []"
    by auto
  then show "fetchFigmaFiles e (run other ops s) =
              (cache_files (run other ops s), run other ops s)"
    by (simp add: fetchFigmaFiles_def)
qed

theorem cache_entries_stale_forever_witness:
  "cache_fileNodes (snd (fetchFileNodes env_two_frames ''K'' 2 3 initial_state)) ''K'' =
     Some (fst (fetchFileNodes env_two_frames ''K'' 2 3 initial_state)) \<and>
   fetchFileNodes env_down ''K'' 1 1
       (run no_other_patterns
          [(env_listing, Op_set_active_figma_file ''B''), (env_down, Op_fetchFileNodes ''K'' 1 1),
           (env_listing, Op_fetchFigmaFiles), (env_listing, Op_fetchNodeDetails ''K'' ''1:1'')]
          (snd (fetchFileNodes env_two_frames ''K'' 2 3 initial_state))) =
     (fst (fetchFileNodes env_two_frames ''K'' 2 3 initial_state),
      run no_other_patterns
          [(env_listing, Op_set_active_figma_file ''B''), (env_down, Op_fetchFileNodes ''K'' 1 1),
           (env_listing, Op_fetchFigmaFiles), (env_listing, Op_fetchNodeDetails ''K'' ''1:1'')]
          (snd (fetchFileNodes env_two_frames ''K'' 2 3 initial_state)))"
proof -
  let ?s = "snd (fetchFileNodes env_two_frames ''K'' 2 3 initial_state)"
  let ?v = "fst (fetchFileNodes env_two_frames ''K'' 2 3 initial_state)"
  let ?ops = "[(env_listing, Op_set_active_figma_file ''B''), (env_down, Op_fetchFileNodes ''K'' 1 1),
           (env_listing, Op_fetchFigmaFiles), (env_listing, Op_fetchNodeDetails ''K'' ''1:1'')]"
  have hit: "cache_fileNodes ?s ''K'' = Some ?v"
    by (simp add: fetchFileNodes_def env_two_frames_def initial_state_def log_call_def)
  from cache_entries_stale_forever [of ?s no_other_patterns ?ops] hit
  have "fetchFileNodes env_down ''K'' 1 1 (run no_other_patterns ?ops ?s) =
          (?v, run no_other_patterns ?ops ?s)"
    by blast
  with hit show ?thesis by simp
qed

end
